theory Spec2Isabelle
  imports Complex_Main "HOL-Library.Sublist"
begin

section \<open>Text\<close>

text \<open>
  A Python \<open>str\<close> is a \<^typ>\<open>string\<close> holding the UTF-8 bytes of the text: an ASCII
  character is one \<^typ>\<open>char\<close>, and the symbols of the fixed messages that lie beyond ASCII
  are written byte by byte. The operations below that look into a text (\<open>lower\<close>,
  \<open>in\<close>, \<open>endswith\<close>, \<open>isdigit\<close>, \<open>len\<close>, \<open>strip\<close>) are Python's on ASCII text;
  bytes from \<open>0x80\<close> on are left as they are and are neither digits nor white space.
\<close>

definition lower_char :: "char \<Rightarrow> char" where
  "lower_char c =
     (let n = (of_char c :: nat) in if 65 \<le> n \<and> n \<le> 90 then char_of (n + 32) else c)"

text \<open>\<open>text.lower()\<close>\<close>

definition str_lower :: "string \<Rightarrow> string" where
  "str_lower t = map lower_char t"

text \<open>\<open>text.startswith(k)\<close>\<close>

fun str_startswith :: "string \<Rightarrow> string \<Rightarrow> bool" where
  "str_startswith t [] = True"
| "str_startswith [] (k # ks) = False"
| "str_startswith (c # cs) (k # ks) = (c = k \<and> str_startswith cs ks)"

text \<open>\<open>text.endswith(k)\<close>\<close>

definition str_endswith :: "string \<Rightarrow> string \<Rightarrow> bool" where
  "str_endswith t k = str_startswith (rev t) (rev k)"

text \<open>\<open>k in text\<close>: \<open>k\<close> occurs in \<open>text\<close> as a contiguous piece.\<close>

fun str_in :: "string \<Rightarrow> string \<Rightarrow> bool" where
  "str_in k [] = (k = [])"
| "str_in k (c # cs) = (str_startswith (c # cs) k \<or> str_in k cs)"

text \<open>\<open>text.isdigit()\<close>: false on the empty text.\<close>

definition isdigit_char :: "char \<Rightarrow> bool" where
  "isdigit_char c = (let n = (of_char c :: nat) in 48 \<le> n \<and> n \<le> 57)"

definition str_isdigit :: "string \<Rightarrow> bool" where
  "str_isdigit t = (t \<noteq> [] \<and> list_all isdigit_char t)"

text \<open>\<open>text.strip()\<close>: white space is tab to carriage return, the four separators
  \<open>0x1C\<close> to \<open>0x1F\<close>, and the space.\<close>

definition isspace_char :: "char \<Rightarrow> bool" where
  "isspace_char c =
     (let n = (of_char c :: nat) in (9 \<le> n \<and> n \<le> 13) \<or> (28 \<le> n \<and> n \<le> 32))"

definition str_strip :: "string \<Rightarrow> string" where
  "str_strip t = rev (dropWhile isspace_char (rev (dropWhile isspace_char t)))"

section \<open>Validator\<close>

definition END_KEYWORDS :: "string list" where
  "END_KEYWORDS = [''bye'', ''goodbye'', ''quit'', ''exit'', ''stop'', ''thank you'', ''thanks'']"

definition KNOWN_TECH_KEYWORDS :: "string list" where
  "KNOWN_TECH_KEYWORDS =
     [''python'', ''java'', ''javascript'', ''typescript'', ''react'', ''angular'', ''vue'',
      ''node'', ''django'', ''flask'', ''spring'', ''flutter'', ''kotlin'', ''swift'',
      ''html'', ''css'', ''tailwind'', ''bootstrap'', ''sql'', ''mysql'', ''postgres'',
      ''mongodb'', ''redis'', ''nlp'', ''computer vision'', ''cv'', ''pytorch'',
      ''tensorflow'', ''sklearn'', ''scikit'', ''docker'', ''kubernetes'', ''aws'',
      ''azure'', ''gcp'', ''linux'', ''bash'', ''git'']"

definition OUT_OF_SCOPE_KEYWORDS :: "string list" where
  "OUT_OF_SCOPE_KEYWORDS =
     [''story'', ''joke'', ''poem'', ''song'', ''lyrics'', ''weather'',
      ''news'', ''movie'', ''games'', ''time pass'']"

definition is_end_keyword :: "string \<Rightarrow> bool" where
  "is_end_keyword text = (let text = str_lower text in list_ex (\<lambda>k. str_in k text) END_KEYWORDS)"

definition looks_like_tech_stack :: "string \<Rightarrow> bool" where
  "looks_like_tech_stack text = (let t = str_lower text in list_ex (\<lambda>kw. str_in kw t) KNOWN_TECH_KEYWORDS)"

section \<open>Session state\<close>

text \<open>A conversation turn, the dict \<open>{"role": role, "content": content}\<close>.\<close>

record message =
  role :: string
  content :: string

text \<open>
  The dict stored in \<open>st.session_state.candidate\<close> by a successful submission. The
  variable only ever holds \<open>{}\<close> or a dict with these seven keys, so the state carries
  a \<open>candidate_profile option\<close>, \<open>None\<close> for \<open>{}\<close>. The number of years is a float that
  the code stores and never computes with; it is carried as a rational.
\<close>

record candidate_profile =
  full_name :: string
  email :: string
  phone :: string
  years_experience :: rat
  desired_position :: string
  location :: string
  tech_stack :: string

record session_state =
  view :: string
  stage :: string
  history_messages :: "message list"
  chat_messages :: "message list"
  candidate :: "candidate_profile option"
  latest_questions :: string
  show_contact :: bool

text \<open>The state after the \<open>if "..." not in st.session_state\<close> block of a first run.\<close>

definition initial_state :: session_state where
  "initial_state =
     \<lparr>view = ''intro'', stage = ''form'', history_messages = [], chat_messages = [],
      candidate = None, latest_questions = [], show_contact = False\<rparr>"

definition add_history :: "string \<Rightarrow> string \<Rightarrow> session_state \<Rightarrow> session_state" where
  "add_history r c s = s\<lparr>history_messages := history_messages s @ [\<lparr>role = r, content = c\<rparr>]\<rparr>"

definition add_chat :: "string \<Rightarrow> string \<Rightarrow> session_state \<Rightarrow> session_state" where
  "add_chat r c s = s\<lparr>chat_messages := chat_messages s @ [\<lparr>role = r, content = c\<rparr>]\<rparr>"

section \<open>What a run of the script does besides changing the state\<close>

text \<open>The arguments of one \<open>client.chat.completions.create\<close> call.\<close>

record request =
  model :: string
  messages :: "message list"
  temperature :: rat

text \<open>
  What such a call gives back: it raises an exception (the name of its type and its
  text), or it returns a response, of which the code reads
  \<open>resp.choices[0].message.content\<close>: the contents of the choices in order, \<open>None\<close> where
  a choice carries no text.
\<close>

datatype api_result = Raises string string | Returns "string option list"

text \<open>The module-level \<open>client\<close>: \<open>None\<close> without an API key, else the remote service.\<close>

type_synonym groq = "request \<Rightarrow> api_result"

text \<open>
  The trace of a run: the notices shown through \<open>st.warning\<close>, \<open>st.error\<close>,
  \<open>st.caption\<close> and \<open>st.success\<close>, and every call sent to the remote service. Plain
  page layout is not recorded.
\<close>

datatype effect =
  UiWarning string | UiError string | UiCaption string | UiSuccess string | ApiCall request

fun is_api_call :: "effect \<Rightarrow> bool" where
  "is_api_call (ApiCall r) = True"
| "is_api_call e = False"

definition api_calls :: "effect list \<Rightarrow> effect list" where
  "api_calls es = filter is_api_call es"

section \<open>LLM gateway\<close>

text \<open>The text returned by \<open>_generic_fallback_markdown\<close>.\<close>

definition generic_fallback_markdown :: string where
  "generic_fallback_markdown = str_strip (
     ''\<newline>'' @
     ''### General\<newline>'' @
     ''\<newline>'' @
     ''1. Tell me about a recent project you worked on and what your role was.\<newline>'' @
     ''2. How do you usually debug and fix tricky issues in your code?\<newline>'' @
     ''3. How do you keep yourself updated with new tools, frameworks, or libraries?\<newline>'' @
     ''4. Describe a situation where you had to learn a new technology quickly.\<newline>'' @
     ''\<newline>'' @
     ''**Mini Assignment:**  \<newline>'' @
     ''Pick one of your past projects and refactor it to improve code readability and structure.  \<newline>'' @
     ''Write down what you improved and why.\<newline>'' @
     ''    '')"

definition generation_system_prompt :: string where
  \<open>generation_system_prompt = str_strip (
     ''\<newline>'' @
     ''You are an experienced technical interviewer for software roles.\<newline>'' @
     ''\<newline>'' @
     ''The candidate will give you a TECH STACK string (comma-separated or space-separated),\<newline>'' @
     ''for example: "Python, Flutter, React, PostgreSQL".\<newline>'' @
     ''\<newline>'' @
     ''Your task:\<newline>'' @
     ''\<newline>'' @
     ''- Extract the distinct technologies from the string.\<newline>'' @
     ''- For EACH technology, create a section in this exact format:\<newline>'' @
     ''\<newline>'' @
     ''### <Technology Name>\<newline>'' @
     ''1. Question 1 (short, practical, and specific to this technology)\<newline>'' @
     ''2. Question 2\<newline>'' @
     ''3. Question 3\<newline>'' @
     ''\<newline>'' @
     ''**Mini Assignment:** One small hands-on task that uses ONLY this technology.\<newline>'' @
     ''\<newline>'' @
     ''RULES:\<newline>'' @
     ''- Every technology MUST have its OWN section.\<newline>'' @
     ''- Questions MUST be about that technology.\<newline>'' @
     ''- Respond ONLY in markdown as described. No intro, no summary, no extra text.\<newline>'')\<close>

definition msg_key_missing_generic :: string where
  "msg_key_missing_generic =
     [CHR 0xE2, CHR 0x9A, CHR 0xA0, CHR 0xEF, CHR 0xB8, CHR 0x8F] @
     '' GROQ_API_KEY is missing or invalid. Using generic questions instead.''"

definition msg_bad_format :: string where
  "msg_bad_format =
     ''LLM response was not in the expected format. Showing a generic set instead.''"

definition msg_call_failed :: string where
  "msg_call_failed =
     [CHR 0xE2, CHR 0x9D, CHR 0x8C] @ '' Groq API call failed. Using generic questions instead.''"

text \<open>
  The body of both \<open>try\<close> blocks up to the stripped text:
  \<open>resp = client.chat.completions.create(...)\<close> and then
  \<open>resp.choices[0].message.content.strip()\<close>. The left side is the exception that
  reaches the \<open>except\<close> clause: the one the call raised, the \<open>IndexError\<close> of an empty
  list of choices, or the \<open>AttributeError\<close> of a content that is \<open>None\<close>.
\<close>

fun first_content :: "api_result \<Rightarrow> (string \<times> string) + string" where
  "first_content (Raises n m) = Inl (n, m)"
| "first_content (Returns []) = Inl (''IndexError'', ''list index out of range'')"
| "first_content (Returns (None # cs)) =
     Inl (''AttributeError'',
          [CHR 0x27] @ ''NoneType'' @ [CHR 0x27] @ '' object has no attribute '' @
          [CHR 0x27] @ ''strip'' @ [CHR 0x27])"
| "first_content (Returns (Some t # cs)) = Inr (str_strip t)"

text \<open>
  The prompts that \<open>generate_technical_questions_markdown\<close> builds and the arguments it
  passes to \<open>create\<close>.
\<close>

definition generation_request :: "string \<Rightarrow> request" where
  "generation_request stack =
     (let system_prompt = generation_system_prompt;
          user_prompt = ''Candidate tech stack: '' @ stack
      in \<lparr>model = ''llama-3.1-8b-instant'',
          messages = [\<lparr>role = ''system'', content = system_prompt\<rparr>,
                      \<lparr>role = ''user'', content = user_prompt\<rparr>],
          temperature = 3 / 10\<rparr>)"

definition generate_technical_questions_markdown ::
    "groq option \<Rightarrow> string \<Rightarrow> string \<times> effect list" where
  "generate_technical_questions_markdown client stack =
     (case client of
        None \<Rightarrow> (generic_fallback_markdown, [UiError msg_key_missing_generic])
      | Some create \<Rightarrow>
          (let req = generation_request stack
           in case first_content (create req) of
                Inr txt \<Rightarrow>
                  if \<not> str_in ''###'' txt
                  then (generic_fallback_markdown, [ApiCall req, UiWarning msg_bad_format])
                  else (txt, [ApiCall req])
              | Inl (ename, etext) \<Rightarrow>
                  (generic_fallback_markdown,
                   [ApiCall req, UiError msg_call_failed,
                    UiCaption (''Details: '' @ ename @ '': '' @ etext)])))"

definition followup_apology :: string where
  "followup_apology =
     ''I can'' @ [CHR 0xE2, CHR 0x80, CHR 0x99] @
     ''t call the AI model right now, but you can still use the questions above '' @
     ''to practice on your own. '' @ [CHR 0xF0, CHR 0x9F, CHR 0x98, CHR 0x8A]"

definition followup_system_prompt :: string where
  "followup_system_prompt = str_strip (
     ''\<newline>'' @
     ''You are an interview preparation assistant.\<newline>'' @
     ''\<newline>'' @
     ''You are chatting with a candidate AFTER you have already generated a set of\<newline>'' @
     ''practice questions and mini-assignments for them.\<newline>'' @
     ''\<newline>'' @
     ''Your job now:\<newline>'' @
     ''\<newline>'' @
     ''- Answer their follow-up questions.\<newline>'' @
     ''- Stay strictly focused on interview preparation, career advice, and their tech stack.\<newline>'' @
     ''- You can explain concepts, give tips, or suggest how to approach the questions above.\<newline>'' @
     ''- Be encouraging, concise, and practical.\<newline>'' @
     ''\<newline>'' @
     ''IMPORTANT:\<newline>'' @
     ''- Do NOT generate a brand new long list of questions.\<newline>'' @
     ''- Do NOT talk about anything unrelated to interviews or tech career.\<newline>'')"

text \<open>
  \<open>answer_followup\<close> reads the candidate and the latest questions from the session
  state, so the state is an argument. \<open>candidate.get("tech_stack", "N/A")\<close> is the stored
  tech stack, or \<open>N/A\<close> on the empty dict. First the prompts it builds and the arguments
  it passes to \<open>create\<close>.
\<close>

definition followup_request :: "session_state \<Rightarrow> string \<Rightarrow> request" where
  "followup_request s asked =
     (let stack = (case candidate s of None \<Rightarrow> ''N/A'' | Some c \<Rightarrow> tech_stack c);
          questions_md =
            (if latest_questions s = [] then ''No questions.'' else latest_questions s);
          system_prompt = followup_system_prompt;
          user_context =
            ''\<newline>'' @ ''Candidate tech stack: '' @ stack @ ''\<newline>'' @
            ''\<newline>'' @
            ''Practice set you already generated:\<newline>'' @
            ''\<newline>'' @ questions_md @ ''\<newline>'' @
            ''\<newline>'' @
            ''Candidate just asked:\<newline>'' @
            ''\<newline>'' @ asked @ ''\<newline>''
      in \<lparr>model = ''llama-3.1-8b-instant'',
          messages = [\<lparr>role = ''system'', content = system_prompt\<rparr>,
                      \<lparr>role = ''user'', content = user_context\<rparr>],
          temperature = 4 / 10\<rparr>)"

definition answer_followup ::
    "groq option \<Rightarrow> session_state \<Rightarrow> string \<Rightarrow> string \<times> effect list" where
  "answer_followup client s asked =
     (case client of
        None \<Rightarrow> (followup_apology, [])
      | Some create \<Rightarrow>
          (let req = followup_request s asked
           in case first_content (create req) of
                Inr reply \<Rightarrow> (reply, [ApiCall req])
              | Inl (ename, etext) \<Rightarrow>
                  (''Something went wrong while generating a response, '' @
                   ''but you can still use the questions above to practice. '' @
                   ''(Error: '' @ ename @ '')'',
                   [ApiCall req])))"

section \<open>Widgets\<close>

text \<open>
  The values that the widgets of a screen return during one run of the script. A button
  and \<open>form_submit_button\<close> return \<open>True\<close> in the run that their click starts;
  \<open>st.chat_input\<close> returns the submitted text or \<open>None\<close>.
\<close>

record contact_widgets =
  contact_name :: string
  contact_email :: string
  contact_message :: string
  contact_submitted :: bool
  contact_close :: bool

record intro_widgets =
  contact_intro :: bool
  lets_check :: bool

record chat_widgets =
  contact_chat :: bool
  in_full_name :: string
  in_email :: string
  in_phone :: string
  in_years_exp :: rat
  in_desired_pos :: string
  in_location :: string
  in_tech_stack :: string
  submitted :: bool
  user_input :: "string option"

record widgets =
  on_contact :: contact_widgets
  on_intro :: intro_widgets
  on_chat :: chat_widgets

section \<open>Contact form and intro view\<close>

definition msg_fill_all_fields :: string where
  "msg_fill_all_fields = ''Please fill all the fields before submitting.''"

definition msg_query_received :: string where
  "msg_query_received =
     [CHR 0xE2, CHR 0x9C, CHR 0x85] @
     '' Your query has been received! Our team will contact you soon.''"

text \<open>\<open>render_contact_form\<close>; its last statement \<open>st.stop()\<close> ends the run.\<close>

definition render_contact_form ::
    "contact_widgets \<Rightarrow> session_state \<Rightarrow> session_state \<times> effect list" where
  "render_contact_form w s =
     (let (s1, es) =
            (if contact_submitted w then
               if contact_name w = [] \<or> contact_email w = [] \<or> contact_message w = []
               then (s, [UiWarning msg_fill_all_fields])
               else (s\<lparr>show_contact := False\<rparr>, [UiSuccess msg_query_received])
             else (s, []));
          s2 = (if contact_close w then s1\<lparr>show_contact := False\<rparr> else s1)
      in (s2, es))"

definition msg_greeting :: string where
  "msg_greeting =
     ''Hey there! '' @ [CHR 0xF0, CHR 0x9F, CHR 0x91, CHR 0x8B] @ ''\<newline>'' @
     ''\<newline>'' @
     ''I'' @ [CHR 0xE2, CHR 0x80, CHR 0x99] @ ''m your **TalentScout Hiring Assistant**.\<newline>'' @
     ''\<newline>'' @
     ''Fill out your basic details below, and I'' @ [CHR 0xE2, CHR 0x80, CHR 0x99] @
     ''ll generate '' @
     ''**practice interview questions** and **mini assignments** '' @
     ''tailored to your tech stack.''"

definition render_intro :: "intro_widgets \<Rightarrow> session_state \<Rightarrow> session_state" where
  "render_intro w s =
     (let s1 = (if contact_intro w then s\<lparr>show_contact := True\<rparr> else s)
      in if lets_check w then
           (let s2 = s1\<lparr>view := ''chat''\<rparr>
            in if history_messages s2 = [] then add_history ''assistant'' msg_greeting s2 else s2)
         else s1)"

section \<open>Chat and form view\<close>

definition msg_required_fields :: string where
  "msg_required_fields =
     ''Please fill at least your **name**, a valid **Gmail address**, '' @
     ''and your **tech stack**.''"

definition msg_gmail_only :: string where
  "msg_gmail_only = ''Please enter a valid Gmail address (must end with @gmail.com).''"

definition msg_phone_digits :: string where
  "msg_phone_digits = ''Please enter a valid 10-digit phone number (numbers only).''"

definition msg_not_tech_stack :: string where
  "msg_not_tech_stack =
     ''I'' @ [CHR 0xE2, CHR 0x80, CHR 0x99] @ ''m not sure that looks like a tech stack yet. '' @
     [CHR 0xF0, CHR 0x9F, CHR 0xA4, CHR 0x94] @ ''\<newline>'' @
     ''\<newline>'' @
     ''Please enter skills like `Python, React, Flutter, NLP, SQL` '' @
     ''instead of a random sentence or request.''"

definition goodbye :: string where
  "goodbye =
     ''You'' @ [CHR 0xE2, CHR 0x80, CHR 0x99] @ ''re welcome! '' @
     [CHR 0xF0, CHR 0x9F, CHR 0x92, CHR 0xAB] @ ''\<newline>'' @
     ''\<newline>'' @
     ''All the best for your interviews '' @ [CHR 0xE2, CHR 0x80, CHR 0x94] @ '' you'' @
     [CHR 0xE2, CHR 0x80, CHR 0x99] @ ''ve got this. '' @
     [CHR 0xF0, CHR 0x9F, CHR 0x9A, CHR 0x80] @ ''\<newline>'' @
     ''Quick tips before you go:\<newline>'' @
     ''- Practice answering out loud\<newline>'' @
     ''- Time yourself for each question\<newline>'' @
     ''- Note down gaps and revise those topics\<newline>'' @
     ''\<newline>'' @
     ''See you soon, and good luck! '' @ [CHR 0xF0, CHR 0x9F, CHR 0x8D, CHR 0x80]"

definition msg_wrapped_up :: string where
  "msg_wrapped_up =
     ''This session is already wrapped up. Refresh the page if you'' @
     [CHR 0xE2, CHR 0x80, CHR 0x99] @ ''d like '' @
     ''to start a fresh practice run. '' @ [CHR 0xF0, CHR 0x9F, CHR 0x94, CHR 0x81]"

definition msg_form_first :: string where
  "msg_form_first =
     ''First, please fill out the form above so I can understand your profile. '' @
     ''Then I'' @ [CHR 0xE2, CHR 0x80, CHR 0x99] @ ''ll generate practice questions for you. '' @
     [CHR 0xF0, CHR 0x9F, CHR 0x93, CHR 0x9D]"

definition msg_out_of_scope :: string where
  \<open>msg_out_of_scope =
     ''I'' @ [CHR 0xE2, CHR 0x80, CHR 0x99] @ ''m not trained for that yet '' @
     [CHR 0xF0, CHR 0x9F, CHR 0xA4, CHR 0x96] @ ''\<newline>'' @
     ''\<newline>'' @
     ''Right now I only know how to help with **interview preparation** '' @
     [CHR 0xE2, CHR 0x80, CHR 0x93] @ '' '' @
     ''your tech stack, concepts, and how to answer questions.\<newline>'' @
     ''\<newline>'' @
     ''If you need help, try asking things like:\<newline>'' @
     ''- "Can you explain question 2 in simple words?"\<newline>'' @
     ''- "How should I structure an answer about OOP?"\<newline>'' @
     ''- "What topics should I revise for this tech stack?"''\<close>

text \<open>
  \<open>render_chat\<close>, in the order of the source: the contact button of the header, the
  candidate form (shown at stage \<open>form\<close> and \<open>questions\<close>), the chat input.
\<close>

definition candidate_form ::
    "groq option \<Rightarrow> chat_widgets \<Rightarrow> session_state \<Rightarrow> session_state \<times> effect list" where
  "candidate_form client w s =
     (if stage s \<in> set [''form'', ''questions''] then
        if submitted w then
          if in_full_name w = [] \<or> in_email w = [] \<or> in_tech_stack w = []
          then (s, [UiWarning msg_required_fields])
          else if \<not> str_endswith (str_lower (in_email w)) ''@gmail.com''
          then (s, [UiError msg_gmail_only])
          else if in_phone w \<noteq> [] \<and> (\<not> str_isdigit (in_phone w) \<or> length (in_phone w) \<noteq> 10)
          then (s, [UiError msg_phone_digits])
          else if \<not> looks_like_tech_stack (in_tech_stack w)
          then (s, [UiError msg_not_tech_stack])
          else
            (let s1 = s\<lparr>candidate := Some
                        \<lparr>full_name = in_full_name w,
                         email = in_email w,
                         phone = in_phone w,
                         years_experience = in_years_exp w,
                         desired_position = in_desired_pos w,
                         location = in_location w,
                         tech_stack = in_tech_stack w\<rparr>\<rparr>;
                 s2 = add_history ''assistant''
                        (''Got it, **'' @ in_full_name w @ ''**! I'' @
                         [CHR 0xE2, CHR 0x80, CHR 0x99] @
                         ''ll generate a practice set based on '' @
                         ''your tech stack: `'' @ in_tech_stack w @ ''`.'') s1;
                 (questions_md, es) = generate_technical_questions_markdown client (in_tech_stack w)
             in (s2\<lparr>latest_questions := questions_md, stage := ''questions''\<rparr>, es))
        else (s, [])
      else (s, []))"

definition chat_input ::
    "groq option \<Rightarrow> chat_widgets \<Rightarrow> session_state \<Rightarrow> session_state \<times> effect list" where
  "chat_input client w s =
     (case user_input w of
        None \<Rightarrow> (s, [])
      | Some t \<Rightarrow>
          if t = [] then (s, [])
          else
            (let s1 = add_chat ''user'' t s
             in if is_end_keyword t then
                  ((add_chat ''assistant'' goodbye s1)\<lparr>stage := ''ended''\<rparr>, [])
                else if stage s1 = ''ended'' then
                  (add_chat ''assistant'' msg_wrapped_up s1, [])
                else if stage s1 = ''form'' then
                  (add_chat ''assistant'' msg_form_first s1, [])
                else if stage s1 = ''questions'' then
                  (let lower_q = str_lower t
                   in if list_ex (\<lambda>k. str_in k lower_q) OUT_OF_SCOPE_KEYWORDS then
                        (add_chat ''assistant'' msg_out_of_scope s1, [])
                      else
                        (let (reply, es) = answer_followup client s1 t
                         in (add_chat ''assistant'' reply s1, es)))
                else (s1, [])))"

definition render_chat ::
    "groq option \<Rightarrow> chat_widgets \<Rightarrow> session_state \<Rightarrow> session_state \<times> effect list" where
  "render_chat client w s =
     (let s1 = (if contact_chat w then s\<lparr>show_contact := True\<rparr> else s);
          (s2, es1) = candidate_form client w s1;
          (s3, es2) = chat_input client w s2
      in (s3, es1 @ es2))"

section \<open>The script\<close>

definition msg_key_not_set :: string where
  "msg_key_not_set =
     [CHR 0xE2, CHR 0x9A, CHR 0xA0, CHR 0xEF, CHR 0xB8, CHR 0x8F] @
     '' GROQ_API_KEY is not set.\<newline>'' @
     ''\<newline>'' @
     [CHR 0xE2, CHR 0x80, CHR 0xA2] @
     '' Locally: create a `.env` file with `GROQ_API_KEY=...`\<newline>'' @
     [CHR 0xE2, CHR 0x80, CHR 0xA2] @
     '' On Streamlit Cloud: add `GROQ_API_KEY` in **Settings '' @
     [CHR 0xE2, CHR 0x86, CHR 0x92] @ '' Secrets**.''"

text \<open>
  One run of the script on the session state left by the previous run (the first run
  starts from \<^term>\<open>initial_state\<close>): the warning about a missing key, then the contact
  form if the overlay is on (and nothing after it), else the intro or the chat view.
\<close>

definition app :: "groq option \<Rightarrow> widgets \<Rightarrow> session_state \<Rightarrow> session_state \<times> effect list" where
  "app client w s =
     (let es0 = (case client of None \<Rightarrow> [UiWarning msg_key_not_set] | Some c \<Rightarrow> [])
      in if show_contact s then
           (let (s1, es) = render_contact_form (on_contact w) s in (s1, es0 @ es))
         else if view s = ''intro'' then (render_intro (on_intro w) s, es0)
         else (let (s1, es) = render_chat client (on_chat w) s in (s1, es0 @ es)))"

text \<open>The states a session can be in: those some sequence of runs leads to.\<close>

inductive reachable :: "session_state \<Rightarrow> bool" where
  reachable_init: "reachable initial_state"
| reachable_run: "reachable s \<Longrightarrow> reachable (fst (app client w s))"

text \<open>A sequence of runs, each with the client and the widget values of that run.\<close>

fun runs :: "(groq option \<times> widgets) list \<Rightarrow> session_state \<Rightarrow> session_state" where
  "runs [] s = s"
| "runs ((client, w) # rs) s = runs rs (fst (app client w s))"


section \<open>Runs started by one user action\<close>

text \<open>
  A click or a submission starts one run of the script, in which only the widget used
  returns a value: every button is \<open>False\<close>, the chat input is \<open>None\<close> and the text
  fields are empty unless said otherwise.
\<close>

definition idle_chat :: chat_widgets where
  "idle_chat =
     \<lparr>contact_chat = False, in_full_name = [], in_email = [], in_phone = [],
      in_years_exp = 0, in_desired_pos = [], in_location = [], in_tech_stack = [],
      submitted = False, user_input = None\<rparr>"

definition idle :: widgets where
  "idle =
     \<lparr>on_contact = \<lparr>contact_name = [], contact_email = [], contact_message = [],
                    contact_submitted = False, contact_close = False\<rparr>,
      on_intro = \<lparr>contact_intro = False, lets_check = False\<rparr>,
      on_chat = idle_chat\<rparr>"

text \<open>The click on the button of the intro view that opens the chat view.\<close>

definition click_lets_check :: widgets where
  "click_lets_check = idle\<lparr>on_intro := \<lparr>contact_intro = False, lets_check = True\<rparr>\<rparr>"

text \<open>A text sent through the chat input.\<close>

definition says :: "string \<Rightarrow> chat_widgets" where
  "says t = idle_chat\<lparr>user_input := Some t\<rparr>"

definition chat_says :: "string \<Rightarrow> widgets" where
  "chat_says t = idle\<lparr>on_chat := says t\<rparr>"

text \<open>A submission of the candidate form: name, email, phone, tech stack.\<close>

definition fills :: "string \<Rightarrow> string \<Rightarrow> string \<Rightarrow> string \<Rightarrow> chat_widgets" where
  "fills n e p t =
     idle_chat\<lparr>in_full_name := n, in_email := e, in_phone := p, in_tech_stack := t,
               submitted := True\<rparr>"

definition form_submits :: "string \<Rightarrow> string \<Rightarrow> string \<Rightarrow> string \<Rightarrow> widgets" where
  "form_submits n e p t = idle\<lparr>on_chat := fills n e p t\<rparr>"

section \<open>The validation rules in the words of the specification\<close>

text \<open>A required field among name, email and tech stack is empty.\<close>

definition required_missing :: "chat_widgets \<Rightarrow> bool" where
  "required_missing w \<longleftrightarrow> in_full_name w = [] \<or> in_email w = [] \<or> in_tech_stack w = []"

text \<open>The email, letter case ignored, does not end with the required domain.\<close>

definition email_rejected :: "chat_widgets \<Rightarrow> bool" where
  "email_rejected w \<longleftrightarrow> \<not> suffix ''@gmail.com'' (str_lower (in_email w))"

text \<open>A phone number is given and is not exactly ten digits.\<close>

definition phone_rejected :: "chat_widgets \<Rightarrow> bool" where
  "phone_rejected w \<longleftrightarrow>
     in_phone w \<noteq> [] \<and>
     \<not> (length (in_phone w) = 10 \<and> list_all (\<lambda>c. c \<in> set ''0123456789'') (in_phone w))"

text \<open>The tech stack names no known technology.\<close>

definition stack_rejected :: "chat_widgets \<Rightarrow> bool" where
  "stack_rejected w \<longleftrightarrow> \<not> looks_like_tech_stack (in_tech_stack w)"

definition validation_fails :: "chat_widgets \<Rightarrow> bool" where
  "validation_fails w \<longleftrightarrow>
     required_missing w \<or> email_rejected w \<or> phone_rejected w \<or> stack_rejected w"

text \<open>The profile that a submission asks to store.\<close>

definition submitted_profile :: "chat_widgets \<Rightarrow> candidate_profile" where
  "submitted_profile w =
     \<lparr>full_name = in_full_name w, email = in_email w, phone = in_phone w,
      years_experience = in_years_exp w, desired_position = in_desired_pos w,
      location = in_location w, tech_stack = in_tech_stack w\<rparr>"

section \<open>Text operations against the library's notions\<close>

lemma str_startswith_prefix: "str_startswith t k \<longleftrightarrow> prefix k t"
  by (induction t k rule: str_startswith.induct) auto

lemma str_in_sublist: "str_in k t \<longleftrightarrow> sublist k t"
  by (induction t) (simp_all add: str_startswith_prefix sublist_Cons_right)


lemma fallback_text: "generic_fallback_markdown =
     ''### General\<newline>'' @
     ''\<newline>'' @
     ''1. Tell me about a recent project you worked on and what your role was.\<newline>'' @
     ''2. How do you usually debug and fix tricky issues in your code?\<newline>'' @
     ''3. How do you keep yourself updated with new tools, frameworks, or libraries?\<newline>'' @
     ''4. Describe a situation where you had to learn a new technology quickly.\<newline>'' @
     ''\<newline>'' @
     ''**Mini Assignment:**  \<newline>'' @
     ''Pick one of your past projects and refactor it to improve code readability and structure.  \<newline>'' @
     ''Write down what you improved and why.''"
  by code_simp

lemma fallback_has_marker: "str_in ''###'' generic_fallback_markdown"
  by code_simp

lemma apology_not_fallback: "followup_apology \<noteq> generic_fallback_markdown"
  by code_simp

lemma is_end_keyword_Nil: "\<not> is_end_keyword []"
  by code_simp


section \<open>Validator properties\<close>




section \<open>Gateway properties\<close>

text \<open>
  Claim C6. Without a client, \<open>generate_technical_questions_markdown\<close> returns the
  generic fallback and \<open>answer_followup\<close> returns its apology, whatever their
  arguments; neither sends a call to the remote service, and the two texts differ.
\<close>

theorem no_credential_fallbacks:
  "fst (generate_technical_questions_markdown None stack) = generic_fallback_markdown \<and>
   api_calls (snd (generate_technical_questions_markdown None stack)) = [] \<and>
   fst (answer_followup None s asked) = followup_apology \<and>
   api_calls (snd (answer_followup None s asked)) = [] \<and>
   followup_apology \<noteq> generic_fallback_markdown"
  by (simp add: generate_technical_questions_markdown_def answer_followup_def api_calls_def
        apology_not_fallback)


text \<open>
  Claim C7. With a client, when the call for questions returns a text that, once
  stripped, has no \<open>###\<close> in it, the result is the generic fallback and not the text
  received; the result is the same fallback when the call raises, and when the
  response has no choice or no content to strip. The fallback is the General section
  of four questions with one Mini Assignment.
\<close>

theorem generate_falls_back:
  "(create (generation_request stack) = Returns (Some raw # cs) \<and>
      \<not> sublist ''###'' (str_strip raw) \<longrightarrow>
      fst (generate_technical_questions_markdown (Some create) stack) = generic_fallback_markdown \<and>
      fst (generate_technical_questions_markdown (Some create) stack) \<noteq> str_strip raw) \<and>
   (create (generation_request stack) = Raises ename etext \<longrightarrow>
      fst (generate_technical_questions_markdown (Some create) stack) = generic_fallback_markdown) \<and>
   (create (generation_request stack) = Returns [] \<longrightarrow>
      fst (generate_technical_questions_markdown (Some create) stack) = generic_fallback_markdown) \<and>
   (create (generation_request stack) = Returns (None # cs) \<longrightarrow>
      fst (generate_technical_questions_markdown (Some create) stack) = generic_fallback_markdown) \<and>
   generic_fallback_markdown =
     ''### General\<newline>'' @
     ''\<newline>'' @
     ''1. Tell me about a recent project you worked on and what your role was.\<newline>'' @
     ''2. How do you usually debug and fix tricky issues in your code?\<newline>'' @
     ''3. How do you keep yourself updated with new tools, frameworks, or libraries?\<newline>'' @
     ''4. Describe a situation where you had to learn a new technology quickly.\<newline>'' @
     ''\<newline>'' @
     ''**Mini Assignment:**  \<newline>'' @
     ''Pick one of your past projects and refactor it to improve code readability and structure.  \<newline>'' @
     ''Write down what you improved and why.''"
proof -
  have a: "fst (generate_technical_questions_markdown (Some create) stack) = generic_fallback_markdown
           \<and> fst (generate_technical_questions_markdown (Some create) stack) \<noteq> str_strip raw"
    if "create (generation_request stack) = Returns (Some raw # cs)"
       "\<not> sublist ''###'' (str_strip raw)"
  proof -
    from that(2) have "\<not> str_in ''###'' (str_strip raw)" by (simp add: str_in_sublist)
    moreover from this have "generic_fallback_markdown \<noteq> str_strip raw"
      using fallback_has_marker by auto
    ultimately show ?thesis
      using that(1) by (simp add: generate_technical_questions_markdown_def)
  qed
  have b: "fst (generate_technical_questions_markdown (Some create) stack) = generic_fallback_markdown"
    if "create (generation_request stack) = Raises ename etext"
    using that by (simp add: generate_technical_questions_markdown_def)
  have c: "fst (generate_technical_questions_markdown (Some create) stack) = generic_fallback_markdown"
    if "create (generation_request stack) = Returns []"
    using that by (simp add: generate_technical_questions_markdown_def)
  have d: "fst (generate_technical_questions_markdown (Some create) stack) = generic_fallback_markdown"
    if "create (generation_request stack) = Returns (None # cs)"
    using that by (simp add: generate_technical_questions_markdown_def)
  from a b c d show ?thesis using fallback_text by blast
qed

theorem generate_falls_back_witness:
  "fst (generate_technical_questions_markdown
          (Some (\<lambda>r. Returns [Some '' Sure! Here are some questions. ''])) ''Java, Docker'')
     = generic_fallback_markdown \<and>
   fst (generate_technical_questions_markdown
          (Some (\<lambda>r. Raises ''APIConnectionError'' ''Connection error.'')) ''Java, Docker'')
     = generic_fallback_markdown"
proof -
  have "\<not> str_in ''###'' (str_strip '' Sure! Here are some questions. '')" by code_simp
  then have h: "\<not> sublist ''###'' (str_strip '' Sure! Here are some questions. '')"
    by (simp add: str_in_sublist)
  show ?thesis
    using h
      generate_falls_back [of "\<lambda>r. Returns [Some '' Sure! Here are some questions. '']"
        "''Java, Docker''" "'' Sure! Here are some questions. ''" "[]"]
      generate_falls_back [of "\<lambda>r. Raises ''APIConnectionError'' ''Connection error.''"
        "''Java, Docker''" _ _ "''APIConnectionError''" "''Connection error.''"]
    by simp
qed

section \<open>The validation rules and the handlers of the chat view\<close>

lemma str_endswith_suffix: "str_endswith t k \<longleftrightarrow> suffix k t"
  by (simp add: str_endswith_def str_startswith_prefix suffix_to_prefix)

lemma isdigit_char_iff: "isdigit_char c \<longleftrightarrow> c \<in> set ''0123456789''"
proof
  assume "isdigit_char c"
  then have "48 \<le> (of_char c :: nat)" "(of_char c :: nat) \<le> 57"
    by (simp_all add: isdigit_char_def Let_def)
  then have "(of_char c :: nat) = 48 \<or> (of_char c :: nat) = 49 \<or> (of_char c :: nat) = 50 \<or>
      (of_char c :: nat) = 51 \<or> (of_char c :: nat) = 52 \<or> (of_char c :: nat) = 53 \<or>
      (of_char c :: nat) = 54 \<or> (of_char c :: nat) = 55 \<or> (of_char c :: nat) = 56 \<or>
      (of_char c :: nat) = 57"
    by arith
  then have "(of_char c :: nat) \<in> {48, 49, 50, 51, 52, 53, 54, 55, 56, 57}" by blast
  then have "char_of (of_char c :: nat) \<in> char_of ` {48 :: nat, 49, 50, 51, 52, 53, 54, 55, 56, 57}"
    by (rule imageI)
  then have "c \<in> char_of ` {48 :: nat, 49, 50, 51, 52, 53, 54, 55, 56, 57}" by simp
  also have "char_of ` {48 :: nat, 49, 50, 51, 52, 53, 54, 55, 56, 57} = set ''0123456789''"
    by code_simp
  finally show "c \<in> set ''0123456789''" .
next
  assume "c \<in> set ''0123456789''"
  then show "isdigit_char c" by (auto simp: isdigit_char_def)
qed

lemma form_checks:
  "(in_full_name w = [] \<or> in_email w = [] \<or> in_tech_stack w = []) = required_missing w"
  "(\<not> str_endswith (str_lower (in_email w)) ''@gmail.com'') = email_rejected w"
  "(in_phone w \<noteq> [] \<and> (\<not> str_isdigit (in_phone w) \<or> length (in_phone w) \<noteq> 10)) = phone_rejected w"
  "(\<not> looks_like_tech_stack (in_tech_stack w)) = stack_rejected w"
  by (auto simp: required_missing_def email_rejected_def phone_rejected_def stack_rejected_def
        str_endswith_suffix str_isdigit_def isdigit_char_iff list_all_iff)


lemma candidate_form_eq:
  "candidate_form client w s =
     (if stage s \<in> {''form'', ''questions''} \<and> submitted w then
        if required_missing w then (s, [UiWarning msg_required_fields])
        else if email_rejected w then (s, [UiError msg_gmail_only])
        else if phone_rejected w then (s, [UiError msg_phone_digits])
        else if stack_rejected w then (s, [UiError msg_not_tech_stack])
        else
          (s\<lparr>candidate := Some (submitted_profile w),
             history_messages := history_messages s @
               [\<lparr>role = ''assistant'',
                 content = ''Got it, **'' @ in_full_name w @ ''**! I'' @
                   [CHR 0xE2, CHR 0x80, CHR 0x99] @ ''ll generate a practice set based on '' @
                   ''your tech stack: `'' @ in_tech_stack w @ ''`.''\<rparr>],
             latest_questions :=
               fst (generate_technical_questions_markdown client (in_tech_stack w)),
             stage := ''questions''\<rparr>,
           snd (generate_technical_questions_markdown client (in_tech_stack w)))
      else (s, []))"
  unfolding candidate_form_def form_checks
  by (simp add: add_history_def submitted_profile_def Let_def split: prod.splits)



lemma candidate_form_idle:
  "\<not> submitted w \<Longrightarrow> candidate_form client w s = (s, [])"
  "stage s = ''ended'' \<Longrightarrow> candidate_form client w s = (s, [])"
  by (simp_all add: candidate_form_eq)

lemma chat_input_none: "user_input w = None \<Longrightarrow> chat_input client w s = (s, [])"
  by (simp add: chat_input_def)

lemma chat_input_end:
  "user_input w = Some t \<Longrightarrow> is_end_keyword t \<Longrightarrow>
   chat_input client w s =
     (s\<lparr>chat_messages := chat_messages s @
          [\<lparr>role = ''user'', content = t\<rparr>, \<lparr>role = ''assistant'', content = goodbye\<rparr>],
        stage := ''ended''\<rparr>, [])"
  using is_end_keyword_Nil by (auto simp: chat_input_def add_chat_def Let_def)

lemma chat_input_ended:
  "user_input w = Some t \<Longrightarrow> t \<noteq> [] \<Longrightarrow> \<not> is_end_keyword t \<Longrightarrow> stage s = ''ended'' \<Longrightarrow>
   chat_input client w s =
     (s\<lparr>chat_messages := chat_messages s @
          [\<lparr>role = ''user'', content = t\<rparr>, \<lparr>role = ''assistant'', content = msg_wrapped_up\<rparr>]\<rparr>,
      [])"
  by (simp add: chat_input_def add_chat_def Let_def)

lemma chat_input_form:
  "user_input w = Some t \<Longrightarrow> t \<noteq> [] \<Longrightarrow> \<not> is_end_keyword t \<Longrightarrow> stage s = ''form'' \<Longrightarrow>
   chat_input client w s =
     (s\<lparr>chat_messages := chat_messages s @
          [\<lparr>role = ''user'', content = t\<rparr>, \<lparr>role = ''assistant'', content = msg_form_first\<rparr>]\<rparr>,
      [])"
  by (simp add: chat_input_def add_chat_def Let_def)

lemma chat_input_candidate: "candidate (fst (chat_input client w s)) = candidate s"
  by (simp add: chat_input_def add_chat_def Let_def split: option.splits prod.splits)

lemma chat_input_stage:
  "stage (fst (chat_input client w s)) =
     (case user_input w of
        None \<Rightarrow> stage s
      | Some t \<Rightarrow> if is_end_keyword t then ''ended'' else stage s)"
  using is_end_keyword_Nil
  by (auto simp: chat_input_def add_chat_def Let_def split: option.splits prod.splits)

section \<open>One run and sequences of runs\<close>

lemma render_chat_form_run:
  "user_input w = None \<Longrightarrow>
   render_chat client w s =
     candidate_form client w (if contact_chat w then s\<lparr>show_contact := True\<rparr> else s)"
  by (simp add: render_chat_def Let_def split_beta chat_input_none)

lemma render_chat_chat_run:
  "\<not> submitted w \<or> stage s = ''ended'' \<Longrightarrow>
   render_chat client w s =
     chat_input client w (if contact_chat w then s\<lparr>show_contact := True\<rparr> else s)"
  by (auto simp: render_chat_def Let_def split_beta candidate_form_idle)

lemma render_chat_candidate:
  "candidate (fst (render_chat client w s)) =
     (if stage s \<in> {''form'', ''questions''} \<and> submitted w \<and> \<not> validation_fails w
      then Some (submitted_profile w) else candidate s)"
  by (auto simp: render_chat_def Let_def split_beta chat_input_candidate candidate_form_eq
        validation_fails_def)

lemma render_chat_stage:
  "stage (fst (render_chat client w s)) =
     (let st = (if stage s \<in> {''form'', ''questions''} \<and> submitted w \<and> \<not> validation_fails w
                then ''questions'' else stage s)
      in case user_input w of
           None \<Rightarrow> st
         | Some t \<Rightarrow> if is_end_keyword t then ''ended'' else st)"
  by (auto simp: render_chat_def Let_def split_beta chat_input_stage candidate_form_eq
        validation_fails_def split: option.splits)

lemma app_candidate:
  "candidate (fst (app client w s)) =
     (if \<not> show_contact s \<and> view s \<noteq> ''intro'' \<and> stage s \<in> {''form'', ''questions''} \<and>
         submitted (on_chat w) \<and> \<not> validation_fails (on_chat w)
      then Some (submitted_profile (on_chat w)) else candidate s)"
  by (auto simp: app_def Let_def split_beta render_chat_candidate render_contact_form_def
        render_intro_def add_history_def)

lemma app_stage:
  "stage (fst (app client w s)) =
     (if \<not> show_contact s \<and> view s \<noteq> ''intro'' then stage (fst (render_chat client (on_chat w) s))
      else stage s)"
  by (auto simp: app_def Let_def split_beta render_contact_form_def render_intro_def
        add_history_def)



lemma reachable_runs: "reachable s \<Longrightarrow> reachable (runs rs s)"
proof (induction rs arbitrary: s)
  case Nil
  then show ?case by simp
next
  case (Cons r rs)
  obtain client w where r: "r = (client, w)" by (cases r)
  from Cons.prems have "reachable (fst (app client w s))" by (rule reachable_run)
  then show ?case using Cons.IH by (simp add: r)
qed

lemma questions_need_candidate_step:
  assumes "stage s = ''questions'' \<longrightarrow> candidate s \<noteq> None"
  shows "stage (fst (app client w s)) = ''questions'' \<longrightarrow> candidate (fst (app client w s)) \<noteq> None"
  using assms
  by (auto simp: app_stage app_candidate render_chat_stage Let_def split: option.splits if_splits)

lemma generated_nonempty: "fst (generate_technical_questions_markdown client stack) \<noteq> []"
proof -
  have "generic_fallback_markdown \<noteq> []" using fallback_has_marker by auto
  moreover have "r \<noteq> []" if "str_in ''###'' r" for r using that by auto
  ultimately show ?thesis
    by (auto simp: generate_technical_questions_markdown_def Let_def
          split: option.splits sum.splits prod.splits)
qed

lemma candidate_form_chat:
  "chat_messages (fst (candidate_form client w s)) = chat_messages s"
  by (auto simp: candidate_form_eq)

section \<open>Session properties\<close>

text \<open>
  Claim C1, as the code has it. In every state a session can reach, stage
  \<open>questions\<close> comes with a stored candidate. The same is not true of stage \<open>ended\<close>:
  the chat input is open at stage \<open>form\<close> and an end phrase typed there closes the
  session before any profile exists, as the counterexample below shows on the runs
  "open the chat view, say bye".
\<close>

theorem questions_stage_has_candidate:
  "reachable s \<Longrightarrow> stage s = ''questions'' \<Longrightarrow> candidate s \<noteq> None"
proof -
  assume r: "reachable s" and q: "stage s = ''questions''"
  from r have "stage s = ''questions'' \<longrightarrow> candidate s \<noteq> None"
  proof (induction rule: reachable.induct)
    case reachable_init
    show ?case by (simp add: initial_state_def)
  next
    case (reachable_run s client w)
    from reachable_run.IH show ?case by (rule questions_need_candidate_step)
  qed
  with q show ?thesis by simp
qed

theorem questions_stage_has_candidate_witness:
  "reachable (runs [(None, click_lets_check),
                    (None, form_submits ''Asha'' ''user@gmail.com'' ''1234567890'' ''Java, Docker'')]
                initial_state) \<and>
   stage (runs [(None, click_lets_check),
                (None, form_submits ''Asha'' ''user@gmail.com'' ''1234567890'' ''Java, Docker'')]
            initial_state) = ''questions'' \<and>
   candidate (runs [(None, click_lets_check),
                (None, form_submits ''Asha'' ''user@gmail.com'' ''1234567890'' ''Java, Docker'')]
            initial_state) \<noteq> None"
proof -
  let ?s = "runs [(None, click_lets_check),
                  (None, form_submits ''Asha'' ''user@gmail.com'' ''1234567890'' ''Java, Docker'')]
              initial_state"
  have r: "reachable ?s" by (rule reachable_runs) (rule reachable_init)
  have q: "stage ?s = ''questions''" by code_simp
  from r q questions_stage_has_candidate [OF r q] show ?thesis by simp
qed

theorem ended_without_candidate_counterexample:
  "reachable (runs [(None, click_lets_check), (None, chat_says ''bye'')] initial_state) \<and>
   stage (runs [(None, click_lets_check), (None, chat_says ''bye'')] initial_state) = ''ended'' \<and>
   candidate (runs [(None, click_lets_check), (None, chat_says ''bye'')] initial_state) = None"
proof -
  have "reachable (runs [(None, click_lets_check), (None, chat_says ''bye'')] initial_state)"
    by (rule reachable_runs) (rule reachable_init)
  moreover have
    "stage (runs [(None, click_lets_check), (None, chat_says ''bye'')] initial_state) = ''ended''"
    by code_simp
  moreover have
    "candidate (runs [(None, click_lets_check), (None, chat_says ''bye'')] initial_state) = None"
    by code_simp
  ultimately show ?thesis by simp
qed

text \<open>
  Claim C2, as the code has it. At stage \<open>ended\<close> every non-empty chat input is
  answered without a call to the remote service and the stage stays \<open>ended\<close>; the
  answer is the "already wrapped up" notice unless the input holds an end phrase, in
  which case it is the goodbye message again, since the end phrase is tested before the
  stage. The counterexample sends "bye" to a session that "stop" has ended.
\<close>

theorem ended_stage_replies:
  assumes "stage s = ''ended''" and "user_input w = Some t" and "t \<noteq> []"
  shows "chat_messages (fst (render_chat client w s)) =
           chat_messages s @
             [\<lparr>role = ''user'', content = t\<rparr>,
              \<lparr>role = ''assistant'',
               content = (if is_end_keyword t then goodbye else msg_wrapped_up)\<rparr>] \<and>
         stage (fst (render_chat client w s)) = ''ended'' \<and>
         api_calls (snd (render_chat client w s)) = []"
proof (cases "is_end_keyword t")
  case True
  with assms show ?thesis
    by (simp add: render_chat_chat_run chat_input_end api_calls_def)
next
  case False
  with assms show ?thesis
    by (simp add: render_chat_chat_run chat_input_ended api_calls_def)
qed

theorem ended_stage_replies_witness:
  "stage (runs [(None, click_lets_check), (None, chat_says ''stop'')] initial_state) = ''ended'' \<and>
   chat_messages (fst (render_chat None (says ''one more question'')
       (runs [(None, click_lets_check), (None, chat_says ''stop'')] initial_state))) =
     chat_messages (runs [(None, click_lets_check), (None, chat_says ''stop'')] initial_state) @
       [\<lparr>role = ''user'', content = ''one more question''\<rparr>,
        \<lparr>role = ''assistant'', content = msg_wrapped_up\<rparr>] \<and>
   api_calls (snd (render_chat None (says ''one more question'')
       (runs [(None, click_lets_check), (None, chat_says ''stop'')] initial_state))) = []"
proof -
  let ?s = "runs [(None, click_lets_check), (None, chat_says ''stop'')] initial_state"
  have e: "stage ?s = ''ended''" by code_simp
  have u: "user_input (says ''one more question'') = Some ''one more question''"
    by (simp add: says_def)
  have n: "''one more question'' \<noteq> []" by simp
  have k: "\<not> is_end_keyword ''one more question''" by code_simp
  from e k ended_stage_replies [OF e u n, of None] show ?thesis by simp
qed

theorem ended_stage_notice_counterexample:
  "stage (runs [(None, click_lets_check), (None, chat_says ''stop'')] initial_state) = ''ended'' \<and>
   chat_messages (fst (render_chat None (says ''bye'')
       (runs [(None, click_lets_check), (None, chat_says ''stop'')] initial_state))) =
     chat_messages (runs [(None, click_lets_check), (None, chat_says ''stop'')] initial_state) @
       [\<lparr>role = ''user'', content = ''bye''\<rparr>, \<lparr>role = ''assistant'', content = goodbye\<rparr>] \<and>
   goodbye \<noteq> msg_wrapped_up"
proof -
  let ?s = "runs [(None, click_lets_check), (None, chat_says ''stop'')] initial_state"
  have "stage ?s = ''ended''" by code_simp
  moreover have "is_end_keyword ''bye''" by code_simp
  then have "chat_messages (fst (render_chat None (says ''bye'') ?s)) =
      chat_messages ?s @
        [\<lparr>role = ''user'', content = ''bye''\<rparr>, \<lparr>role = ''assistant'', content = goodbye\<rparr>]"
    by (simp add: render_chat_chat_run chat_input_end says_def idle_chat_def)
  moreover have "goodbye \<noteq> msg_wrapped_up" by code_simp
  ultimately show ?thesis by simp
qed




text \<open>
  Claim C4, as the code has it. At stage \<open>form\<close>, a non-empty chat input without an
  end phrase, in a run that submits no form, is answered with the fixed request to fill
  out the form first; the stage stays \<open>form\<close> and no call is sent. An input with an end
  phrase is answered with the goodbye message and moves the stage to \<open>ended\<close>, as the
  counterexample shows with "thanks".
\<close>

theorem form_stage_chat_reply:
  assumes "stage s = ''form''" and "user_input w = Some t" and "t \<noteq> []"
    and "\<not> is_end_keyword t" and "\<not> submitted w"
  shows "chat_messages (fst (render_chat client w s)) =
           chat_messages s @
             [\<lparr>role = ''user'', content = t\<rparr>,
              \<lparr>role = ''assistant'', content = msg_form_first\<rparr>] \<and>
         stage (fst (render_chat client w s)) = ''form'' \<and>
         api_calls (snd (render_chat client w s)) = []"
  using assms by (simp add: render_chat_chat_run chat_input_form api_calls_def)

theorem form_stage_chat_reply_witness:
  "stage (runs [(None, click_lets_check)] initial_state) = ''form'' \<and>
   chat_messages (fst (render_chat None (says ''What is Java?'')
       (runs [(None, click_lets_check)] initial_state))) =
     chat_messages (runs [(None, click_lets_check)] initial_state) @
       [\<lparr>role = ''user'', content = ''What is Java?''\<rparr>,
        \<lparr>role = ''assistant'', content = msg_form_first\<rparr>] \<and>
   stage (fst (render_chat None (says ''What is Java?'')
       (runs [(None, click_lets_check)] initial_state))) = ''form''"
proof -
  let ?s = "runs [(None, click_lets_check)] initial_state"
  have f: "stage ?s = ''form''" by code_simp
  have u: "user_input (says ''What is Java?'') = Some ''What is Java?''"
    by (simp add: says_def)
  have n: "''What is Java?'' \<noteq> []" by simp
  have k: "\<not> is_end_keyword ''What is Java?''" by code_simp
  have b: "\<not> submitted (says ''What is Java?'')" by (simp add: says_def idle_chat_def)
  from f form_stage_chat_reply [OF f u n k b, of None] show ?thesis by simp
qed

theorem form_stage_prompt_counterexample:
  "stage (runs [(None, click_lets_check)] initial_state) = ''form'' \<and>
   chat_messages (fst (render_chat None (says ''thanks'')
       (runs [(None, click_lets_check)] initial_state))) =
     [\<lparr>role = ''user'', content = ''thanks''\<rparr>, \<lparr>role = ''assistant'', content = goodbye\<rparr>] \<and>
   stage (fst (render_chat None (says ''thanks'')
       (runs [(None, click_lets_check)] initial_state))) = ''ended'' \<and>
   goodbye \<noteq> msg_form_first"
proof -
  let ?s = "runs [(None, click_lets_check)] initial_state"
  have "stage ?s = ''form''" by code_simp
  moreover have c: "chat_messages ?s = []" by code_simp
  moreover have "is_end_keyword ''thanks''" by code_simp
  then have "fst (render_chat None (says ''thanks'') ?s) =
      ?s\<lparr>chat_messages := chat_messages ?s @
          [\<lparr>role = ''user'', content = ''thanks''\<rparr>, \<lparr>role = ''assistant'', content = goodbye\<rparr>],
         stage := ''ended''\<rparr>"
    by (simp add: render_chat_chat_run chat_input_end says_def idle_chat_def)
  moreover have "goodbye \<noteq> msg_form_first" by code_simp
  ultimately show ?thesis by simp
qed



text \<open>
  Claim C9. At stage \<open>form\<close> a submission with the email \<open>user@yahoo.com\<close> is
  rejected: the stage stays \<open>form\<close> and nothing is stored. A submission with a name,
  the email \<open>user@gmail.com\<close>, the phone \<open>1234567890\<close> and the tech stack
  \<open>Java, Docker\<close> is accepted: the stage becomes \<open>questions\<close>, the candidate holds
  the submitted fields, and the latest questions are the generated text, which is not
  empty.
\<close>

theorem yahoo_rejected_gmail_accepted:
  "(submitted w \<and> in_email w = ''user@yahoo.com'' \<and> user_input w = None \<and> stage s = ''form'' \<longrightarrow>
      stage (fst (render_chat client w s)) = ''form'' \<and>
      candidate (fst (render_chat client w s)) = candidate s \<and>
      latest_questions (fst (render_chat client w s)) = latest_questions s \<and>
      (in_full_name w \<noteq> [] \<and> in_tech_stack w \<noteq> [] \<longrightarrow>
         snd (render_chat client w s) = [UiError msg_gmail_only])) \<and>
   (submitted v \<and> in_full_name v \<noteq> [] \<and> in_email v = ''user@gmail.com'' \<and>
    in_phone v = ''1234567890'' \<and> in_tech_stack v = ''Java, Docker'' \<and>
    user_input v = None \<and> stage s = ''form'' \<longrightarrow>
      stage (fst (render_chat client v s)) = ''questions'' \<and>
      candidate (fst (render_chat client v s)) =
        Some \<lparr>full_name = in_full_name v, email = ''user@gmail.com'', phone = ''1234567890'',
              years_experience = in_years_exp v, desired_position = in_desired_pos v,
              location = in_location v, tech_stack = ''Java, Docker''\<rparr> \<and>
      latest_questions (fst (render_chat client v s)) =
        fst (generate_technical_questions_markdown client ''Java, Docker'') \<and>
      latest_questions (fst (render_chat client v s)) \<noteq> [])"
proof -
  have y: "\<not> suffix ''@gmail.com'' (str_lower ''user@yahoo.com'')"
    unfolding str_endswith_suffix [symmetric] by code_simp
  have g: "suffix ''@gmail.com'' (str_lower ''user@gmail.com'')"
    unfolding str_endswith_suffix [symmetric] by code_simp
  have p: "length ''1234567890'' = 10 \<and> list_all (\<lambda>c. c \<in> set ''0123456789'') ''1234567890''"
    by simp
  have t: "looks_like_tech_stack ''Java, Docker''" by code_simp
  have 1: "stage (fst (render_chat client w s)) = ''form'' \<and>
      candidate (fst (render_chat client w s)) = candidate s \<and>
      latest_questions (fst (render_chat client w s)) = latest_questions s \<and>
      (in_full_name w \<noteq> [] \<and> in_tech_stack w \<noteq> [] \<longrightarrow>
         snd (render_chat client w s) = [UiError msg_gmail_only])"
    if "submitted w" "in_email w = ''user@yahoo.com''" "user_input w = None" "stage s = ''form''"
  proof -
    from that(2) y have e: "email_rejected w" by (simp add: email_rejected_def)
    then have "validation_fails w" by (simp add: validation_fails_def)
    moreover have "in_email w \<noteq> []" using that(2) by simp
    ultimately show ?thesis using that e
      by (auto simp: render_chat_form_run candidate_form_eq validation_fails_def
            required_missing_def)
  qed
  have 2: "stage (fst (render_chat client v s)) = ''questions'' \<and>
      candidate (fst (render_chat client v s)) =
        Some \<lparr>full_name = in_full_name v, email = ''user@gmail.com'', phone = ''1234567890'',
              years_experience = in_years_exp v, desired_position = in_desired_pos v,
              location = in_location v, tech_stack = ''Java, Docker''\<rparr> \<and>
      latest_questions (fst (render_chat client v s)) =
        fst (generate_technical_questions_markdown client ''Java, Docker'') \<and>
      latest_questions (fst (render_chat client v s)) \<noteq> []"
    if "submitted v" "in_full_name v \<noteq> []" "in_email v = ''user@gmail.com''"
       "in_phone v = ''1234567890''" "in_tech_stack v = ''Java, Docker''"
       "user_input v = None" "stage s = ''form''"
  proof -
    have "\<not> required_missing v" using that by (simp add: required_missing_def)
    moreover have "\<not> email_rejected v" using that(3) g by (simp add: email_rejected_def)
    moreover have "\<not> phone_rejected v" using that(4) p by (simp add: phone_rejected_def)
    moreover have "\<not> stack_rejected v" using that(5) t by (simp add: stack_rejected_def)
    ultimately show ?thesis using that generated_nonempty [of client "''Java, Docker''"]
      by (auto simp: render_chat_form_run candidate_form_eq submitted_profile_def)
  qed
  from 1 2 show ?thesis by blast
qed

theorem yahoo_rejected_gmail_accepted_witness:
  "stage (fst (render_chat None (fills ''Asha'' ''user@yahoo.com'' ''1234567890'' ''Java, Docker'')
           (runs [(None, click_lets_check)] initial_state))) = ''form'' \<and>
   stage (fst (render_chat None (fills ''Asha'' ''user@gmail.com'' ''1234567890'' ''Java, Docker'')
           (runs [(None, click_lets_check)] initial_state))) = ''questions'' \<and>
   latest_questions (fst (render_chat None
           (fills ''Asha'' ''user@gmail.com'' ''1234567890'' ''Java, Docker'')
           (runs [(None, click_lets_check)] initial_state))) = generic_fallback_markdown"
proof -
  let ?s = "runs [(None, click_lets_check)] initial_state"
  let ?y = "fills ''Asha'' ''user@yahoo.com'' ''1234567890'' ''Java, Docker''"
  let ?g = "fills ''Asha'' ''user@gmail.com'' ''1234567890'' ''Java, Docker''"
  have st: "stage ?s = ''form''" by code_simp
  have y: "submitted ?y \<and> in_email ?y = ''user@yahoo.com'' \<and> user_input ?y = None"
    by (simp add: fills_def idle_chat_def)
  have g: "submitted ?g \<and> in_full_name ?g \<noteq> [] \<and> in_email ?g = ''user@gmail.com'' \<and>
      in_phone ?g = ''1234567890'' \<and> in_tech_stack ?g = ''Java, Docker'' \<and> user_input ?g = None"
    by (simp add: fills_def idle_chat_def)
  have f: "fst (generate_technical_questions_markdown None ''Java, Docker'') =
      generic_fallback_markdown"
    by (simp add: generate_technical_questions_markdown_def)
  from st y g f yahoo_rejected_gmail_accepted [of ?y ?s None ?g]
  show ?thesis by simp
qed

text \<open>
  Claim C10. A chat input with an end phrase is handled before the stage is looked
  at: whatever the stage, the user turn and the goodbye message are appended to the
  chat log and the stage becomes \<open>ended\<close>; a run that submits no form sends no call.
\<close>

theorem end_intent_before_stage_dispatch:
  assumes "user_input w = Some t" and "is_end_keyword t"
  shows "chat_messages (fst (render_chat client w s)) =
           chat_messages s @
             [\<lparr>role = ''user'', content = t\<rparr>, \<lparr>role = ''assistant'', content = goodbye\<rparr>] \<and>
         stage (fst (render_chat client w s)) = ''ended'' \<and>
         (\<not> submitted w \<longrightarrow> api_calls (snd (render_chat client w s)) = [])"
proof -
  have "chat_messages (fst (render_chat client w s)) =
          chat_messages (fst (candidate_form client w
            (if contact_chat w then s\<lparr>show_contact := True\<rparr> else s))) @
            [\<lparr>role = ''user'', content = t\<rparr>, \<lparr>role = ''assistant'', content = goodbye\<rparr>]"
    using assms by (simp add: render_chat_def Let_def split_beta chat_input_end)
  then have "chat_messages (fst (render_chat client w s)) =
          chat_messages s @
            [\<lparr>role = ''user'', content = t\<rparr>, \<lparr>role = ''assistant'', content = goodbye\<rparr>]"
    by (simp add: candidate_form_chat)
  moreover have "stage (fst (render_chat client w s)) = ''ended''"
    using assms by (simp add: render_chat_stage)
  moreover have "api_calls (snd (render_chat client w s)) = []" if "\<not> submitted w"
    using assms that by (simp add: render_chat_chat_run chat_input_end api_calls_def)
  ultimately show ?thesis by blast
qed

theorem end_intent_before_stage_dispatch_witness:
  "stage (fst (render_chat None (says ''ok bye'')
       (runs [(None, click_lets_check)] initial_state))) = ''ended'' \<and>
   stage (fst (render_chat None (says ''ok bye'')
       (runs [(None, click_lets_check),
              (None, form_submits ''Asha'' ''user@gmail.com'' ''1234567890'' ''Java, Docker'')]
          initial_state))) = ''ended'' \<and>
   stage (fst (render_chat None (says ''ok bye'')
       (runs [(None, click_lets_check), (None, chat_says ''stop'')] initial_state))) = ''ended'' \<and>
   api_calls (snd (render_chat None (says ''ok bye'')
       (runs [(None, click_lets_check),
              (None, form_submits ''Asha'' ''user@gmail.com'' ''1234567890'' ''Java, Docker'')]
          initial_state))) = []"
proof -
  have u: "user_input (says ''ok bye'') = Some ''ok bye''" by (simp add: says_def)
  have k: "is_end_keyword ''ok bye''" by code_simp
  have b: "\<not> submitted (says ''ok bye'')" by (simp add: says_def idle_chat_def)
  from b end_intent_before_stage_dispatch [OF u k, of None] show ?thesis by simp
qed

end
